theory Spec2Isabelle
  imports Main
begin

section \<open>Strings: the library functions the tool relies on\<close>

text \<open>
  \<^verbatim>\<open>String.prototype.split\<close> with a one-character separator: the pieces between the
  occurrences of the separator, in order. The empty string has one (empty) piece, so the
  result is never the empty list.
\<close>

fun split_char :: "char \<Rightarrow> string \<Rightarrow> string list" where
  "split_char sep [] = [[]]"
| "split_char sep (c # cs) =
     (if c = sep then [] # split_char sep cs
      else (c # hd (split_char sep cs)) # tl (split_char sep cs))"

text \<open>
  \<^verbatim>\<open>util.format\<close> restricted to the \<^verbatim>\<open>%s\<close> directive, the only one the templates of
  the tool contain: each \<^verbatim>\<open>%s\<close> of the template takes the next argument, a directive
  without argument stays as it is, and arguments left over are appended after a space.
  Arguments are inserted as they are and never scanned for directives.
\<close>

fun util_format :: "string \<Rightarrow> string list \<Rightarrow> string" where
  "util_format [] args = concat (map (\<lambda>a. CHR '' '' # a) args)"
| "util_format (c # d # rest) (a # args) =
     (if c = CHR ''%'' \<and> d = CHR ''s'' then a @ util_format rest args
      else c # util_format (d # rest) (a # args))"
| "util_format (c # rest) args = c # util_format rest args"

section \<open>Version normalisation\<close>

text \<open>
  \<^verbatim>\<open>AdvinstTool.normalizeVersionForCache\<close>: the branches in the order of the source,
  the final fallback included.
\<close>

definition normalizeVersionForCache :: "string \<Rightarrow> string" where
  "normalizeVersionForCache version =
     (let parts = split_char CHR ''.'' version
      in if length parts \<ge> 3 then version
         else if length parts = 2 then version @ ''.0''
         else if length parts = 1 then version @ ''.0.0''
         else version)"

section \<open>The environment of the tool\<close>

text \<open>
  Errors are values: \<^verbatim>\<open>throw new Error(msg)\<close> and a rejected promise are \<open>Inl (Error msg)\<close>.
\<close>

datatype error = Error string

text \<open>
  What one run does that can be seen from outside, in order: every call of a function of
  \<^verbatim>\<open>@actions/core\<close>, \<^verbatim>\<open>@actions/exec\<close>, \<^verbatim>\<open>@actions/tool-cache\<close> and \<^verbatim>\<open>./utils\<close> with
  its arguments, and every entry into a method of \<^verbatim>\<open>AdvinstTool\<close> that \<^verbatim>\<open>getPath\<close>
  calls, with its arguments.
\<close>

datatype event =
    Info string
  | GetVariable string
  | Find string string string
  | DownloadTool string
  | GetExecOutput string
  | CacheDir string string string string
  | Exists string
  | ExportVariable string string
  | AddPath string
  | Call_download
  | Call_extract string
  | Call_register string
  | Call_registerCom string
  | Call_exportVariables string

text \<open>
  The world outside the class. The first three fields are state the run changes: the
  tool cache as a map from (tool, version, architecture) to the root directory, the
  variables exported to the job and the search path. The others are parameters, the
  answers of the environment, each depending on the arguments of the call only:
  \<^verbatim>\<open>getVariable\<close>, \<^verbatim>\<open>getRunnerTempDir\<close> and \<^verbatim>\<open>exists\<close> of \<^verbatim>\<open>./utils\<close> (a module that
  is not among the sources; the empty string stands for an unset variable, which is as
  falsy as the empty string), what \<^verbatim>\<open>downloadTool\<close>, \<^verbatim>\<open>getExecOutput\<close> (exit code and
  standard output) and \<^verbatim>\<open>cacheDir\<close> return or that they fail, and the functions
  \<^verbatim>\<open>join\<close> and \<^verbatim>\<open>dirname\<close> of the platform's \<^verbatim>\<open>path\<close> module.
\<close>

record world =
  toolCacheStore :: "string \<times> string \<times> string \<Rightarrow> string option"
  environment :: "string \<Rightarrow> string option"
  searchPath :: "string list"
  getVariable :: "string \<Rightarrow> string"
  getRunnerTempDir :: string
  fileExists :: "string \<Rightarrow> bool"
  downloadTool :: "string \<Rightarrow> error + string"
  getExecOutput :: "string \<Rightarrow> error + int \<times> string"
  cacheDirRoot :: "string \<Rightarrow> string \<Rightarrow> string \<Rightarrow> string \<Rightarrow> error + string"
  pathJoin :: "string \<Rightarrow> string \<Rightarrow> string"
  pathDirname :: "string \<Rightarrow> string"

text \<open>
  A computation takes the world and gives back its result or error, the world it leaves
  and the events it caused. \<open>andThen\<close> is sequencing (\<^verbatim>\<open>await\<close>, \<^verbatim>\<open>;\<close>): an error
  ends the sequence with the world and the events reached so far.
\<close>

type_synonym 'a action = "world \<Rightarrow> (error + 'a) \<times> world \<times> event list"

definition outcome :: "(error + 'a) \<times> world \<times> event list \<Rightarrow> error + 'a" where
  "outcome r = fst r"

definition final :: "(error + 'a) \<times> world \<times> event list \<Rightarrow> world" where
  "final r = fst (snd r)"

definition events :: "(error + 'a) \<times> world \<times> event list \<Rightarrow> event list" where
  "events r = snd (snd r)"

definition succeed :: "'a \<Rightarrow> 'a action" where
  "succeed x w = (Inr x, w, [])"

definition throw :: "string \<Rightarrow> 'a action" where
  "throw msg w = (Inl (Error msg), w, [])"

definition emit :: "event \<Rightarrow> unit action" where
  "emit e w = (Inr (), w, [e])"

definition ask :: "(world \<Rightarrow> 'a) \<Rightarrow> 'a action" where
  "ask f w = (Inr (f w), w, [])"

definition andThen :: "'a action \<Rightarrow> ('a \<Rightarrow> 'b action) \<Rightarrow> 'b action" where
  "andThen m f w =
     (case m w of
        (Inl e, w', es) \<Rightarrow> (Inl e, w', es)
      | (Inr x, w', es) \<Rightarrow> (case f x w' of (r, w'', es') \<Rightarrow> (r, w'', es @ es')))"

subsection \<open>The external functions\<close>

definition core_info :: "string \<Rightarrow> unit action" where
  "core_info msg = emit (Info msg)"

text \<open>
  Modelled from the spec: the tool cache of \<^verbatim>\<open>@actions/tool-cache\<close>, which is not part of
  the repository. \<^verbatim>\<open>find(name, version, arch) -> root|absent\<close> reads the store and gives the
  empty string for an absent entry; \<^verbatim>\<open>cacheDir\<close> (the spec's \<^verbatim>\<open>save(sourceDir, name,
  version, arch) -> root\<close>) either fails or commits the directory under the key and returns
  the root the store assigned.
\<close>

definition toolCache_find :: "string \<Rightarrow> string \<Rightarrow> string \<Rightarrow> string action" where
  "toolCache_find name ver arch w =
     (Inr (case toolCacheStore w (name, ver, arch) of None \<Rightarrow> [] | Some root \<Rightarrow> root),
      w, [Find name ver arch])"

definition toolCache_cacheDir ::
  "string \<Rightarrow> string \<Rightarrow> string \<Rightarrow> string \<Rightarrow> string action" where
  "toolCache_cacheDir dir name ver arch w =
     (case cacheDirRoot w dir name ver arch of
        Inl e \<Rightarrow> (Inl e, w, [CacheDir dir name ver arch])
      | Inr root \<Rightarrow>
          (Inr root,
           w\<lparr>toolCacheStore := (toolCacheStore w)((name, ver, arch) \<mapsto> root)\<rparr>,
           [CacheDir dir name ver arch]))"

definition toolCache_downloadTool :: "string \<Rightarrow> string action" where
  "toolCache_downloadTool url w = (downloadTool w url, w, [DownloadTool url])"

definition exec_getExecOutput :: "string \<Rightarrow> (int \<times> string) action" where
  "exec_getExecOutput cmd w = (getExecOutput w cmd, w, [GetExecOutput cmd])"

definition utils_exists :: "string \<Rightarrow> bool action" where
  "utils_exists p w = (Inr (fileExists w p), w, [Exists p])"

definition utils_getVariable :: "string \<Rightarrow> string action" where
  "utils_getVariable name w = (Inr (getVariable w name), w, [GetVariable name])"

definition core_exportVariable :: "string \<Rightarrow> string \<Rightarrow> unit action" where
  "core_exportVariable name val w =
     (Inr (), w\<lparr>environment := (environment w)(name \<mapsto> val)\<rparr>, [ExportVariable name val])"

definition core_addPath :: "string \<Rightarrow> unit action" where
  "core_addPath dir w = (Inr (), w\<lparr>searchPath := dir # searchPath w\<rparr>, [AddPath dir])"

section \<open>The class AdvinstTool\<close>

text \<open>
  The fields of the class, set once by the constructor, and its static constants. A
  backslash cannot be written inside a string literal, so the two path templates are put
  together from their pieces.
\<close>

record advinst_tool =
  version :: string
  license :: string
  enableCom :: bool

definition backslash :: string where
  "backslash = [CHR 0x5C]"

definition advinstCustomUrlVar :: string where
  "advinstCustomUrlVar = ''advancedinstaller_url''"

definition advinstDownloadUrlTemplate :: string where
  "advinstDownloadUrlTemplate = ''https://www.advancedinstaller.com/downloads/%s/advinst.msi''"

definition advinstExtractCmdTemplate :: string where
  \<open>advinstExtractCmdTemplate = ''msiexec /a "%s" TARGETDIR="%s" /qn''\<close>

definition advinstRegisterCmdTemplate :: string where
  "advinstRegisterCmdTemplate = ''%s /RegisterCI %s''"

definition advinstStartComCmdTemplate :: string where
  "advinstStartComCmdTemplate = ''%s /REGSERVER''"

definition advinstComPathTemplate :: string where
  "advinstComPathTemplate =
     ''%s'' @ backslash @ ''bin'' @ backslash @ ''x86'' @ backslash @ ''advancedinstaller.com''"

definition asdvinstMsbuildTagetPathTemplate :: string where
  "asdvinstMsbuildTagetPathTemplate =
     ''%s'' @ backslash @ ''ProgramFilesFolder'' @ backslash @ ''MSBuild'' @ backslash @
     ''Caphyon'' @ backslash @ ''Advanced Installer''"

definition advinstCacheToolName :: string where
  "advinstCacheToolName = ''advinst''"

definition advinstCacheToolArch :: string where
  "advinstCacheToolArch = ''x86''"

definition advinstMSBuildTargetsVar :: string where
  "advinstMSBuildTargetsVar = ''AdvancedInstallerMSBuildTargets''"

definition advinstToolRootVar :: string where
  "advinstToolRootVar = ''AdvancedInstallerRoot''"

text \<open>
  The methods, statement by statement. Each begins with the event of its entry; a
  template literal is a concatenation, and a test of a string or of \<^verbatim>\<open>ret.exitCode\<close> is
  JavaScript's truthiness (non-empty) or \<^verbatim>\<open>!== 0\<close>.
\<close>

definition download :: "advinst_tool \<Rightarrow> string action" where
  "download t =
     andThen (emit Call_download) (\<lambda>_.
     andThen (utils_getVariable advinstCustomUrlVar) (\<lambda>customUrl.
     if customUrl \<noteq> [] then
       andThen (core_info (util_format ''Using custom URL for advinst tool: %s'' [customUrl])) (\<lambda>_.
       toolCache_downloadTool customUrl)
     else
       andThen (core_info (''Downloading advinst tool with version: '' @ version t)) (\<lambda>_.
       toolCache_downloadTool (util_format advinstDownloadUrlTemplate [version t]))))"

text \<open>
  \<^verbatim>\<open>AdvinstTool.extract\<close> (\<open>extract\<close> is a keyword of the prover, hence the suffix).
\<close>

definition extract_tool :: "advinst_tool \<Rightarrow> string \<Rightarrow> string action" where
  "extract_tool t setupPath =
     andThen (emit (Call_extract setupPath)) (\<lambda>_.
     andThen (core_info ''Extracting advinst tool'') (\<lambda>_.
     andThen (ask (\<lambda>w. pathJoin w (getRunnerTempDir w) ''advinst'')) (\<lambda>extractFolder.
     andThen (exec_getExecOutput
                (util_format advinstExtractCmdTemplate [setupPath, extractFolder])) (\<lambda>ret.
     if fst ret \<noteq> 0 then throw (snd ret)
     else
       let normalizedVersion = normalizeVersionForCache (version t)
       in toolCache_cacheDir extractFolder advinstCacheToolName normalizedVersion
            advinstCacheToolArch))))"

definition register :: "advinst_tool \<Rightarrow> string \<Rightarrow> unit action" where
  "register t toolPath =
     andThen (emit (Call_register toolPath)) (\<lambda>_.
     if license t \<noteq> [] then
       andThen (core_info ''Registering advinst tool'') (\<lambda>_.
       andThen (exec_getExecOutput
                  (util_format advinstRegisterCmdTemplate [toolPath, license t])) (\<lambda>ret.
       if fst ret \<noteq> 0 then throw (snd ret) else succeed ()))
     else succeed ())"

definition registerCom :: "advinst_tool \<Rightarrow> string \<Rightarrow> unit action" where
  "registerCom t toolPath =
     andThen (emit (Call_registerCom toolPath)) (\<lambda>_.
     if enableCom t then
       andThen (core_info ''Enabling advinst COM interface'') (\<lambda>_.
       andThen (exec_getExecOutput (util_format advinstStartComCmdTemplate [toolPath])) (\<lambda>ret.
       if fst ret \<noteq> 0 then throw (snd ret) else succeed ()))
     else succeed ())"

definition exportVariables :: "string \<Rightarrow> unit action" where
  "exportVariables toolRoot =
     andThen (emit (Call_exportVariables toolRoot)) (\<lambda>_.
     andThen (core_exportVariable advinstToolRootVar toolRoot) (\<lambda>_.
     core_exportVariable advinstMSBuildTargetsVar
       (util_format asdvinstMsbuildTagetPathTemplate [toolRoot])))"

definition getPath :: "advinst_tool \<Rightarrow> string action" where
  "getPath t =
     andThen (core_info (''Checking cache for advinst tool with version: '' @ version t)) (\<lambda>_.
     let normalizedVersion = normalizeVersionForCache (version t) in
     andThen (if normalizedVersion \<noteq> version t
              then core_info (''Normalized version '' @ version t @ '' to '' @
                     normalizedVersion @ '' for tool-cache compatibility'')
              else succeed ()) (\<lambda>_.
     andThen (toolCache_find advinstCacheToolName normalizedVersion advinstCacheToolArch)
       (\<lambda>found.
     andThen (if found = [] then
                andThen (core_info ''Tool not found in cache'') (\<lambda>_.
                andThen (download t) (\<lambda>setupPath.
                extract_tool t setupPath))
              else
                andThen (core_info ''Tool found in cache'') (\<lambda>_.
                succeed found)) (\<lambda>toolRoot.
     let toolPath = util_format advinstComPathTemplate [toolRoot] in
     andThen (utils_exists toolPath) (\<lambda>ret.
     if \<not> ret then
       throw (util_format ''Expected to find %s, but it was not found.'' [toolPath])
     else
       andThen (register t toolPath) (\<lambda>_.
       andThen (registerCom t toolPath) (\<lambda>_.
       andThen (exportVariables toolRoot) (\<lambda>_.
       andThen (ask (\<lambda>w. pathDirname w toolPath)) (\<lambda>dir.
       andThen (core_addPath dir) (\<lambda>_.
       succeed toolPath))))))))))"

section \<open>Names used in the statements and proofs\<close>

text \<open>
  The body of \<^verbatim>\<open>getPath\<close> in two parts, for the proofs: \<open>resolveRoot\<close> is the code up
  to the resolved root (the cache lookup, and download and extraction on a miss),
  \<open>useRoot\<close> the code from the existence check on. Lemma \<open>getPath_blocks\<close> below shows
  that \<^verbatim>\<open>getPath\<close> is the one followed by the other.
\<close>

definition resolveRoot :: "advinst_tool \<Rightarrow> string action" where
  "resolveRoot t =
     andThen (core_info (''Checking cache for advinst tool with version: '' @ version t)) (\<lambda>_.
     let normalizedVersion = normalizeVersionForCache (version t) in
     andThen (if normalizedVersion \<noteq> version t
              then core_info (''Normalized version '' @ version t @ '' to '' @
                     normalizedVersion @ '' for tool-cache compatibility'')
              else succeed ()) (\<lambda>_.
     andThen (toolCache_find advinstCacheToolName normalizedVersion advinstCacheToolArch)
       (\<lambda>found.
     if found = [] then
       andThen (core_info ''Tool not found in cache'') (\<lambda>_.
       andThen (download t) (\<lambda>setupPath.
       extract_tool t setupPath))
     else
       andThen (core_info ''Tool found in cache'') (\<lambda>_.
       succeed found))))"

definition useRoot :: "advinst_tool \<Rightarrow> string \<Rightarrow> string action" where
  "useRoot t toolRoot =
     (let toolPath = util_format advinstComPathTemplate [toolRoot] in
     andThen (utils_exists toolPath) (\<lambda>ret.
     if \<not> ret then
       throw (util_format ''Expected to find %s, but it was not found.'' [toolPath])
     else
       andThen (register t toolPath) (\<lambda>_.
       andThen (registerCom t toolPath) (\<lambda>_.
       andThen (exportVariables toolRoot) (\<lambda>_.
       andThen (ask (\<lambda>w. pathDirname w toolPath)) (\<lambda>dir.
       andThen (core_addPath dir) (\<lambda>_.
       succeed toolPath)))))))"

text \<open>
  Three views of the events of a run: the method entries and existence checks, the
  commands given to \<^verbatim>\<open>getExecOutput\<close>, and the sources given to \<^verbatim>\<open>downloadTool\<close>.
\<close>

fun is_step :: "event \<Rightarrow> bool" where
  "is_step Call_download = True"
| "is_step (Call_extract _) = True"
| "is_step (Call_register _) = True"
| "is_step (Call_registerCom _) = True"
| "is_step (Call_exportVariables _) = True"
| "is_step (Exists _) = True"
| "is_step _ = False"

definition steps :: "event list \<Rightarrow> event list" where
  "steps es = filter is_step es"

fun commands :: "event list \<Rightarrow> string list" where
  "commands [] = []"
| "commands (GetExecOutput cmd # es) = cmd # commands es"
| "commands (_ # es) = commands es"

fun downloads :: "event list \<Rightarrow> string list" where
  "downloads [] = []"
| "downloads (DownloadTool url # es) = url # downloads es"
| "downloads (_ # es) = downloads es"

text \<open>
  Concrete worlds and requests. In \<open>example_world\<close> the cache is empty, no custom URL is
  set and every external call succeeds; in \<open>cached_world\<close> the cache holds version
  \<^verbatim>\<open>3.5.1\<close>.
\<close>

definition example_world :: world where
  "example_world =
     \<lparr>toolCacheStore = Map.empty, environment = Map.empty, searchPath = [],
      getVariable = (\<lambda>_. []), getRunnerTempDir = ''D:/temp'',
      fileExists = (\<lambda>_. True),
      downloadTool = (\<lambda>_. Inr ''D:/temp/advinst.msi''),
      getExecOutput = (\<lambda>_. Inr (0, [])),
      cacheDirRoot = (\<lambda>dir name ver arch. Inr (''C:/cache/'' @ ver)),
      pathJoin = (\<lambda>a b. a @ ''/'' @ b),
      pathDirname = (\<lambda>p. take (length p - 22) p)\<rparr>"

definition cached_world :: world where
  "cached_world =
     example_world\<lparr>toolCacheStore := [(''advinst'', ''3.5.1'', ''x86'') \<mapsto> ''C:/cache/3.5.1'']\<rparr>"

definition tool_2 :: advinst_tool where
  "tool_2 = \<lparr>version = ''2'', license = [], enableCom = False\<rparr>"

definition tool_21 :: advinst_tool where
  "tool_21 = \<lparr>version = ''2.1'', license = [], enableCom = False\<rparr>"

definition tool_210 :: advinst_tool where
  "tool_210 = \<lparr>version = ''2.1.0'', license = [], enableCom = False\<rparr>"

definition tool_351 :: advinst_tool where
  "tool_351 = \<lparr>version = ''3.5.1'', license = ''KEY'', enableCom = True\<rparr>"

section \<open>Properties of the normalisation\<close>

lemma length_split_char: "length (split_char sep s) = Suc (count_list s sep)"
  by (induction s) simp_all

lemma count_list_append: "count_list (xs @ ys) x = count_list xs x + count_list ys x"
  by (induction xs) simp_all

lemma split_char_nonempty: "split_char sep s \<noteq> []"
  using length_split_char [of sep s] by auto

text \<open>
  Claim C4, as the code has it: the empty version string splits into one empty component,
  so the single-component branch applies and the result is \<^verbatim>\<open>.0.0\<close>; the input is not
  returned unchanged.
\<close>

theorem normalize_empty_not_unchanged: "normalizeVersionForCache '''' \<noteq> ''''"
  by (simp add: normalizeVersionForCache_def)

text \<open>
  Claim C4, amended: for the empty version string the function returns \<^verbatim>\<open>.0.0\<close>.
\<close>

theorem normalize_empty: "normalizeVersionForCache '''' = ''.0.0''"
  by (simp add: normalizeVersionForCache_def)

text \<open>
  Claim C5: the branch policy. A version with three or more components is returned
  unchanged, one with exactly two components gets \<^verbatim>\<open>.0\<close> appended, and a non-empty one
  with exactly one component gets \<^verbatim>\<open>.0.0\<close> appended.
\<close>

theorem normalize_branch_policy:
  "(length (split_char CHR ''.'' v) \<ge> 3 \<longrightarrow> normalizeVersionForCache v = v) \<and>
   (length (split_char CHR ''.'' v) = 2 \<longrightarrow> normalizeVersionForCache v = v @ ''.0'') \<and>
   (v \<noteq> [] \<and> length (split_char CHR ''.'' v) = 1 \<longrightarrow>
      normalizeVersionForCache v = v @ ''.0.0'')"
  by (simp add: normalizeVersionForCache_def)

theorem normalize_branch_policy_witness:
  "length (split_char CHR ''.'' ''10.5.2.1'') \<ge> 3 \<and>
   normalizeVersionForCache ''10.5.2.1'' = ''10.5.2.1'' \<and>
   length (split_char CHR ''.'' ''2.1'') = 2 \<and>
   normalizeVersionForCache ''2.1'' = ''2.1.0'' \<and>
   ''2'' \<noteq> [] \<and> length (split_char CHR ''.'' ''2'') = 1 \<and>
   normalizeVersionForCache ''2'' = ''2.0.0''"
proof -
  have a: "length (split_char CHR ''.'' ''10.5.2.1'') \<ge> 3" by simp
  have b: "length (split_char CHR ''.'' ''2.1'') = 2" by simp
  have c: "''2'' \<noteq> [] \<and> length (split_char CHR ''.'' ''2'') = 1" by simp
  from a normalize_branch_policy [of "''10.5.2.1''"]
  have a': "normalizeVersionForCache ''10.5.2.1'' = ''10.5.2.1''" by blast
  from b normalize_branch_policy [of "''2.1''"]
  have b': "normalizeVersionForCache ''2.1'' = ''2.1'' @ ''.0''" by blast
  from c normalize_branch_policy [of "''2''"]
  have c': "normalizeVersionForCache ''2'' = ''2'' @ ''.0.0''" by blast
  from a b c a' b' c' show ?thesis by simp
qed

lemma normalize_has_three_components:
  "length (split_char CHR ''.'' (normalizeVersionForCache v)) \<ge> 3"
  using length_split_char [of "CHR ''.''" v]
  by (auto simp add: normalizeVersionForCache_def Let_def length_split_char count_list_append)

text \<open>
  Claim C6: normalisation is idempotent.
\<close>

theorem normalize_idempotent:
  "normalizeVersionForCache (normalizeVersionForCache v) = normalizeVersionForCache v"
proof -
  have "length (split_char CHR ''.'' (normalizeVersionForCache v)) \<ge> 3"
    by (rule normalize_has_three_components)
  then show ?thesis
    by (simp add: normalizeVersionForCache_def [of "normalizeVersionForCache v"])
qed

section \<open>The templates\<close>

lemma format_com:
  "util_format advinstComPathTemplate [r] =
     r @ backslash @ ''bin'' @ backslash @ ''x86'' @ backslash @ ''advancedinstaller.com''"
  by (simp add: advinstComPathTemplate_def backslash_def)

lemma format_url:
  "util_format advinstDownloadUrlTemplate [v] =
     ''https://www.advancedinstaller.com/downloads/'' @ v @ ''/advinst.msi''"
  by (simp add: advinstDownloadUrlTemplate_def)

lemma format_reg: "util_format advinstRegisterCmdTemplate [p, l] = p @ '' /RegisterCI '' @ l"
  by (simp add: advinstRegisterCmdTemplate_def)

lemma format_startcom: "util_format advinstStartComCmdTemplate [p] = p @ '' /REGSERVER''"
  by (simp add: advinstStartComCmdTemplate_def)

lemma format_extract:
  \<open>util_format advinstExtractCmdTemplate [s, d] =
     ''msiexec /a "'' @ s @ ''" TARGETDIR="'' @ d @ ''" /qn''\<close>
  by (simp add: advinstExtractCmdTemplate_def)

lemma format_msbuild:
  "util_format asdvinstMsbuildTagetPathTemplate [r] =
     r @ backslash @ ''ProgramFilesFolder'' @ backslash @ ''MSBuild'' @ backslash @
     ''Caphyon'' @ backslash @ ''Advanced Installer''"
  by (simp add: asdvinstMsbuildTagetPathTemplate_def backslash_def)

lemma format_custom:
  "util_format ''Using custom URL for advinst tool: %s'' [u] =
     ''Using custom URL for advinst tool: '' @ u"
  by simp

lemma format_expected:
  "util_format ''Expected to find %s, but it was not found.'' [p] =
     ''Expected to find '' @ p @ '', but it was not found.''"
  by simp

lemmas format_simps = format_com format_url format_reg format_startcom format_extract
  format_msbuild format_custom format_expected

section \<open>Sequencing and the external functions\<close>

lemma outcome_andThen:
  "outcome (andThen m f w) =
     (case outcome (m w) of Inl e \<Rightarrow> Inl e
      | Inr x \<Rightarrow> outcome (f x (final (m w))))"
  by (simp add: outcome_def final_def andThen_def split: prod.splits sum.splits)

lemma final_andThen:
  "final (andThen m f w) =
     (case outcome (m w) of Inl e \<Rightarrow> final (m w)
      | Inr x \<Rightarrow> final (f x (final (m w))))"
  by (simp add: outcome_def final_def andThen_def split: prod.splits sum.splits)

lemma events_andThen:
  "events (andThen m f w) =
     (case outcome (m w) of Inl e \<Rightarrow> events (m w)
      | Inr x \<Rightarrow> events (m w) @ events (f x (final (m w))))"
  by (simp add: outcome_def final_def events_def andThen_def split: prod.splits sum.splits)

lemmas andThen_simps = outcome_andThen final_andThen events_andThen

lemma prim_simps:
  "outcome (succeed x w) = Inr x" "final (succeed x w) = w" "events (succeed x w) = []"
  "outcome (throw msg w) = Inl (Error msg)" "final (throw msg w) = w" "events (throw msg w) = []"
  "outcome (emit e w) = Inr ()" "final (emit e w) = w" "events (emit e w) = [e]"
  "outcome (ask g w) = Inr (g w)" "final (ask g w) = w" "events (ask g w) = []"
  "outcome (core_info msg w) = Inr ()" "final (core_info msg w) = w" "events (core_info msg w) = [Info msg]"
  "outcome (toolCache_find n v a w) = Inr (case toolCacheStore w (n, v, a) of None \<Rightarrow> [] | Some root \<Rightarrow> root)"
  "final (toolCache_find n v a w) = w" "events (toolCache_find n v a w) = [Find n v a]"
  "outcome (toolCache_downloadTool url w) = downloadTool w url"
  "final (toolCache_downloadTool url w) = w" "events (toolCache_downloadTool url w) = [DownloadTool url]"
  "outcome (exec_getExecOutput cmd w) = getExecOutput w cmd"
  "final (exec_getExecOutput cmd w) = w" "events (exec_getExecOutput cmd w) = [GetExecOutput cmd]"
  "outcome (utils_exists p w) = Inr (fileExists w p)"
  "final (utils_exists p w) = w" "events (utils_exists p w) = [Exists p]"
  "outcome (utils_getVariable n w) = Inr (getVariable w n)"
  "final (utils_getVariable n w) = w" "events (utils_getVariable n w) = [GetVariable n]"
  "outcome (core_exportVariable n v w) = Inr ()"
  "final (core_exportVariable n v w) = w\<lparr>environment := (environment w)(n \<mapsto> v)\<rparr>"
  "events (core_exportVariable n v w) = [ExportVariable n v]"
  "outcome (core_addPath d w) = Inr ()"
  "final (core_addPath d w) = w\<lparr>searchPath := d # searchPath w\<rparr>"
  "events (core_addPath d w) = [AddPath d]"
  "outcome (toolCache_cacheDir d n v a w) = cacheDirRoot w d n v a"
  "final (toolCache_cacheDir d n v a w) = (case cacheDirRoot w d n v a of Inl e \<Rightarrow> w | Inr root \<Rightarrow> w\<lparr>toolCacheStore := (toolCacheStore w)((n, v, a) \<mapsto> root)\<rparr>)"
  "events (toolCache_cacheDir d n v a w) = [CacheDir d n v a]"
  by (simp_all add: outcome_def final_def events_def succeed_def throw_def emit_def ask_def
      core_info_def toolCache_find_def toolCache_cacheDir_def toolCache_downloadTool_def
      exec_getExecOutput_def utils_exists_def utils_getVariable_def core_exportVariable_def core_addPath_def split: sum.splits)

section \<open>The methods, one by one\<close>

lemma events_download:
  "events (download t w) =
     [Call_download, GetVariable advinstCustomUrlVar,
      Info (if getVariable w advinstCustomUrlVar \<noteq> []
            then ''Using custom URL for advinst tool: '' @ getVariable w advinstCustomUrlVar
            else ''Downloading advinst tool with version: '' @ version t),
      DownloadTool (if getVariable w advinstCustomUrlVar \<noteq> [] then getVariable w advinstCustomUrlVar
            else ''https://www.advancedinstaller.com/downloads/'' @ version t @ ''/advinst.msi'')]"
  by (simp add: download_def andThen_simps prim_simps format_simps del: util_format.simps)

lemma outcome_download:
  "outcome (download t w) =
     downloadTool w (if getVariable w advinstCustomUrlVar \<noteq> [] then getVariable w advinstCustomUrlVar
            else ''https://www.advancedinstaller.com/downloads/'' @ version t @ ''/advinst.msi'')"
  by (simp add: download_def andThen_simps prim_simps format_simps del: util_format.simps)

lemma final_download: "final (download t w) = w"
  by (simp add: download_def andThen_simps prim_simps del: util_format.simps split: sum.splits)

lemma events_register:
  "events (register t p w) =
     Call_register p # (if license t \<noteq> [] then [Info ''Registering advinst tool'', GetExecOutput (p @ '' /RegisterCI '' @ license t)] else [])"
  by (simp add: register_def andThen_simps prim_simps format_simps del: util_format.simps split: sum.splits)

lemma final_register: "final (register t p w) = w"
  by (simp add: register_def andThen_simps prim_simps del: util_format.simps split: sum.splits)

lemma outcome_register:
  "outcome (register t p w) =
     (if license t \<noteq> [] then
        (case getExecOutput w (p @ '' /RegisterCI '' @ license t) of
           Inl e \<Rightarrow> Inl e
         | Inr ret \<Rightarrow> if fst ret \<noteq> 0 then Inl (Error (snd ret)) else Inr ())
      else Inr ())"
  by (simp add: register_def andThen_simps prim_simps format_simps del: util_format.simps split: sum.splits)

lemma events_registerCom:
  "events (registerCom t p w) =
     Call_registerCom p # (if enableCom t then [Info ''Enabling advinst COM interface'', GetExecOutput (p @ '' /REGSERVER'')] else [])"
  by (simp add: registerCom_def andThen_simps prim_simps format_simps del: util_format.simps split: sum.splits)

lemma final_registerCom: "final (registerCom t p w) = w"
  by (simp add: registerCom_def andThen_simps prim_simps del: util_format.simps split: sum.splits)

lemma outcome_registerCom:
  "outcome (registerCom t p w) =
     (if enableCom t then
        (case getExecOutput w (p @ '' /REGSERVER'') of
           Inl e \<Rightarrow> Inl e
         | Inr ret \<Rightarrow> if fst ret \<noteq> 0 then Inl (Error (snd ret)) else Inr ())
      else Inr ())"
  by (simp add: registerCom_def andThen_simps prim_simps format_simps del: util_format.simps split: sum.splits)

lemma events_exportVariables:
  "events (exportVariables r w) =
     [Call_exportVariables r, ExportVariable advinstToolRootVar r,
      ExportVariable advinstMSBuildTargetsVar (r @ backslash @ ''ProgramFilesFolder'' @ backslash @ ''MSBuild'' @ backslash @
     ''Caphyon'' @ backslash @ ''Advanced Installer'')]"
  by (simp add: exportVariables_def andThen_simps prim_simps format_simps del: util_format.simps)

lemma outcome_exportVariables: "outcome (exportVariables r w) = Inr ()"
  by (simp add: exportVariables_def andThen_simps prim_simps del: util_format.simps)

lemma events_extract:
  \<open>events (extract_tool t s w) =
     [Call_extract s, Info ''Extracting advinst tool'',
      GetExecOutput (''msiexec /a "'' @ s @ ''" TARGETDIR="'' @
         pathJoin w (getRunnerTempDir w) ''advinst'' @ ''" /qn'')] @
     (case getExecOutput w (''msiexec /a "'' @ s @ ''" TARGETDIR="'' @
              pathJoin w (getRunnerTempDir w) ''advinst'' @ ''" /qn'') of
        Inl e \<Rightarrow> []
      | Inr ret \<Rightarrow>
          if fst ret \<noteq> 0 then []
          else [CacheDir (pathJoin w (getRunnerTempDir w) ''advinst'') advinstCacheToolName
                  (normalizeVersionForCache (version t)) advinstCacheToolArch])\<close>
  by (simp add: extract_tool_def andThen_simps prim_simps format_simps Let_def
      del: util_format.simps split: sum.splits)

lemma outcome_extract:
  \<open>outcome (extract_tool t s w) =
     (case getExecOutput w (''msiexec /a "'' @ s @ ''" TARGETDIR="'' @
              pathJoin w (getRunnerTempDir w) ''advinst'' @ ''" /qn'') of
        Inl e \<Rightarrow> Inl e
      | Inr ret \<Rightarrow>
          if fst ret \<noteq> 0 then Inl (Error (snd ret))
          else cacheDirRoot w (pathJoin w (getRunnerTempDir w) ''advinst'') advinstCacheToolName
                  (normalizeVersionForCache (version t)) advinstCacheToolArch)\<close>
  by (simp add: extract_tool_def andThen_simps prim_simps format_simps Let_def
      del: util_format.simps split: sum.splits)

lemma final_extract: "\<exists>st. final (extract_tool t s w) = w\<lparr>toolCacheStore := st\<rparr>"
proof -
  have triv: "w = w\<lparr>toolCacheStore := toolCacheStore w\<rparr>" by simp
  show ?thesis
    apply (simp add: extract_tool_def andThen_simps prim_simps Let_def
      del: util_format.simps split: sum.splits)
    using triv by blast
qed

lemma final_extract_fields:
  "environment (final (extract_tool t s w)) = environment w"
  "searchPath (final (extract_tool t s w)) = searchPath w"
  "fileExists (final (extract_tool t s w)) = fileExists w"
  "getExecOutput (final (extract_tool t s w)) = getExecOutput w"
  "pathDirname (final (extract_tool t s w)) = pathDirname w"
  using final_extract [of t s w] by auto

section \<open>The two parts of \<^verbatim>\<open>getPath\<close>\<close>

lemma andThen_assoc: "andThen (andThen m f) g = andThen m (\<lambda>x. andThen (f x) g)"
  by (rule ext) (simp add: andThen_def split: prod.splits sum.splits)

lemma getPath_blocks: "getPath t = andThen (resolveRoot t) (useRoot t)"
  unfolding getPath_def resolveRoot_def Let_def andThen_assoc
  by (simp add: useRoot_def [abs_def] Let_def del: util_format.simps)

lemma store_irrelevant:
  "outcome (register t p (w\<lparr>toolCacheStore := st\<rparr>)) = outcome (register t p w)"
  "outcome (registerCom t p (w\<lparr>toolCacheStore := st\<rparr>)) = outcome (registerCom t p w)"
  by (simp_all add: outcome_register outcome_registerCom)

lemma final_exportVariables:
  "final (exportVariables r w) =
     w\<lparr>environment := (environment w)
          (advinstToolRootVar \<mapsto> r,
           advinstMSBuildTargetsVar \<mapsto> util_format asdvinstMsbuildTagetPathTemplate [r])\<rparr>"
  by (simp add: exportVariables_def andThen_simps prim_simps del: util_format.simps)

lemma events_useRoot:
  "events (useRoot t r w) =
     Exists (util_format advinstComPathTemplate [r]) #
     (if \<not> fileExists w (util_format advinstComPathTemplate [r]) then []
      else events (register t (util_format advinstComPathTemplate [r]) w) @
        (case outcome (register t (util_format advinstComPathTemplate [r]) w) of
           Inl e \<Rightarrow> []
         | Inr _ \<Rightarrow>
             events (registerCom t (util_format advinstComPathTemplate [r]) w) @
             (case outcome (registerCom t (util_format advinstComPathTemplate [r]) w) of
                Inl e \<Rightarrow> []
              | Inr _ \<Rightarrow>
                  events (exportVariables r w) @
                  [AddPath (pathDirname w (util_format advinstComPathTemplate [r]))])))"
  by (simp add: useRoot_def Let_def andThen_simps prim_simps final_register final_registerCom
      outcome_exportVariables final_exportVariables
      del: util_format.simps split: sum.splits)

lemma outcome_useRoot:
  "outcome (useRoot t r w) =
     (if \<not> fileExists w (util_format advinstComPathTemplate [r])
      then Inl (Error (util_format ''Expected to find %s, but it was not found.''
                  [util_format advinstComPathTemplate [r]]))
      else case outcome (register t (util_format advinstComPathTemplate [r]) w) of
           Inl e \<Rightarrow> Inl e
         | Inr _ \<Rightarrow>
             (case outcome (registerCom t (util_format advinstComPathTemplate [r]) w) of
                Inl e \<Rightarrow> Inl e
              | Inr _ \<Rightarrow> Inr (util_format advinstComPathTemplate [r])))"
  by (simp add: useRoot_def Let_def andThen_simps prim_simps final_register final_registerCom
      outcome_exportVariables final_exportVariables
      del: util_format.simps split: sum.splits)

lemma final_useRoot:
  "final (useRoot t r w) =
     (case outcome (useRoot t r w) of
        Inl e \<Rightarrow> w
      | Inr _ \<Rightarrow>
          w\<lparr>environment := (environment w)
               (advinstToolRootVar \<mapsto> r,
                advinstMSBuildTargetsVar \<mapsto> util_format asdvinstMsbuildTagetPathTemplate [r]),
             searchPath := pathDirname w (util_format advinstComPathTemplate [r]) # searchPath w\<rparr>)"
  by (simp add: useRoot_def Let_def andThen_simps prim_simps final_register final_registerCom
      outcome_exportVariables final_exportVariables
      del: util_format.simps split: sum.splits)

lemma useRoot_store:
  "outcome (useRoot t r (w\<lparr>toolCacheStore := st\<rparr>)) = outcome (useRoot t r w)"
  "events (useRoot t r (w\<lparr>toolCacheStore := st\<rparr>)) = events (useRoot t r w)"
  "environment (final (useRoot t r (w\<lparr>toolCacheStore := st\<rparr>))) = environment (final (useRoot t r w))"
  "searchPath (final (useRoot t r (w\<lparr>toolCacheStore := st\<rparr>))) = searchPath (final (useRoot t r w))"
  by (simp_all add: outcome_useRoot events_useRoot final_useRoot store_irrelevant
      events_register events_registerCom events_exportVariables
      del: util_format.simps split: sum.splits)

lemma events_resolveRoot:
  "events (resolveRoot t w) =
     Info (''Checking cache for advinst tool with version: '' @ version t) #
     (if normalizeVersionForCache (version t) \<noteq> version t
      then [Info (''Normalized version '' @ version t @ '' to '' @
                normalizeVersionForCache (version t) @ '' for tool-cache compatibility'')]
      else []) @
     Find advinstCacheToolName (normalizeVersionForCache (version t)) advinstCacheToolArch #
     (if outcome (toolCache_find advinstCacheToolName (normalizeVersionForCache (version t))
                    advinstCacheToolArch w) = Inr []
      then Info ''Tool not found in cache'' # events (download t w) @
           (case outcome (download t w) of
              Inl e \<Rightarrow> []
            | Inr setupPath \<Rightarrow> events (extract_tool t setupPath w))
      else [Info ''Tool found in cache''])"
  by (simp add: resolveRoot_def Let_def andThen_simps prim_simps final_download
      del: util_format.simps split: sum.splits)

lemma outcome_resolveRoot:
  "outcome (resolveRoot t w) =
     (if outcome (toolCache_find advinstCacheToolName (normalizeVersionForCache (version t))
                    advinstCacheToolArch w) = Inr []
      then (case outcome (download t w) of
              Inl e \<Rightarrow> Inl e
            | Inr setupPath \<Rightarrow> outcome (extract_tool t setupPath w))
      else outcome (toolCache_find advinstCacheToolName (normalizeVersionForCache (version t))
                    advinstCacheToolArch w))"
  by (simp add: resolveRoot_def Let_def andThen_simps prim_simps final_download
      del: util_format.simps split: sum.splits)

lemma final_resolveRoot: "\<exists>st. final (resolveRoot t w) = w\<lparr>toolCacheStore := st\<rparr>"
proof -
  have triv: "w = w\<lparr>toolCacheStore := toolCacheStore w\<rparr>" by simp
  show ?thesis
    apply (simp add: resolveRoot_def Let_def andThen_simps prim_simps final_download
      del: util_format.simps split: sum.splits)
    using triv final_extract by blast
qed

lemma events_getPath:
  "events (getPath t w) =
     events (resolveRoot t w) @
     (case outcome (resolveRoot t w) of Inl e \<Rightarrow> [] | Inr r \<Rightarrow> events (useRoot t r w))"
  using final_resolveRoot [of t w]
  by (auto simp add: getPath_blocks events_andThen useRoot_store split: sum.splits)

lemma outcome_getPath:
  "outcome (getPath t w) =
     (case outcome (resolveRoot t w) of Inl e \<Rightarrow> Inl e | Inr r \<Rightarrow> outcome (useRoot t r w))"
  using final_resolveRoot [of t w]
  by (auto simp add: getPath_blocks outcome_andThen useRoot_store split: sum.splits)

lemma final_getPath_fields:
  "environment (final (getPath t w)) =
     (case outcome (resolveRoot t w) of
        Inl e \<Rightarrow> environment w | Inr r \<Rightarrow> environment (final (useRoot t r w)))"
  "searchPath (final (getPath t w)) =
     (case outcome (resolveRoot t w) of
        Inl e \<Rightarrow> searchPath w | Inr r \<Rightarrow> searchPath (final (useRoot t r w)))"
  using final_resolveRoot [of t w]
  by (auto simp add: getPath_blocks final_andThen useRoot_store split: sum.splits)

section \<open>Method entries, commands and downloads of a run\<close>

lemma steps_simps:
  "steps [] = []"
  "steps (e # es) = (if is_step e then e # steps es else steps es)"
  "steps (es @ es') = steps es @ steps es'"
  by (simp_all add: steps_def)

lemma steps_download: "steps (events (download t w)) = [Call_download]"
  by (simp add: events_download steps_simps)

lemma steps_extract: "steps (events (extract_tool t s w)) = [Call_extract s]"
  by (simp add: events_extract steps_simps split: sum.splits)

lemma steps_register: "steps (events (register t p w)) = [Call_register p]"
  by (simp add: events_register steps_simps)

lemma steps_registerCom: "steps (events (registerCom t p w)) = [Call_registerCom p]"
  by (simp add: events_registerCom steps_simps)

lemma steps_exportVariables: "steps (events (exportVariables r w)) = [Call_exportVariables r]"
  by (simp add: events_exportVariables steps_simps)

lemma steps_useRoot:
  "steps (events (useRoot t r w)) =
     Exists (util_format advinstComPathTemplate [r]) #
     (if \<not> fileExists w (util_format advinstComPathTemplate [r]) then []
      else Call_register (util_format advinstComPathTemplate [r]) #
        (case outcome (register t (util_format advinstComPathTemplate [r]) w) of
           Inl e \<Rightarrow> []
         | Inr _ \<Rightarrow>
             Call_registerCom (util_format advinstComPathTemplate [r]) #
             (case outcome (registerCom t (util_format advinstComPathTemplate [r]) w) of
                Inl e \<Rightarrow> []
              | Inr _ \<Rightarrow> [Call_exportVariables r])))"
  by (simp add: events_useRoot steps_simps steps_register steps_registerCom
      steps_exportVariables del: util_format.simps split: sum.splits)

lemma steps_resolveRoot:
  "steps (events (resolveRoot t w)) =
     (if outcome (toolCache_find advinstCacheToolName (normalizeVersionForCache (version t))
                    advinstCacheToolArch w) = Inr []
      then Call_download #
           (case outcome (download t w) of
              Inl e \<Rightarrow> []
            | Inr setupPath \<Rightarrow> [Call_extract setupPath])
      else [])"
  by (simp add: events_resolveRoot steps_simps steps_download steps_extract
      del: util_format.simps split: sum.splits)

lemma steps_getPath:
  "steps (events (getPath t w)) =
     steps (events (resolveRoot t w)) @
     (case outcome (resolveRoot t w) of
        Inl e \<Rightarrow> [] | Inr r \<Rightarrow> steps (events (useRoot t r w)))"
  by (simp add: events_getPath steps_simps split: sum.splits)

lemma downloads_append: "downloads (es @ es') = downloads es @ downloads es'"
  by (induction es rule: downloads.induct) simp_all

lemma commands_append: "commands (es @ es') = commands es @ commands es'"
  by (induction es rule: commands.induct) simp_all

lemma downloads_useRoot: "downloads (events (useRoot t r w)) = []"
  by (simp add: events_useRoot events_register events_registerCom events_exportVariables
      downloads_append del: util_format.simps split: sum.splits)

lemma extract_commits:
  "outcome (extract_tool t s w) = Inr root \<Longrightarrow>
   toolCacheStore (final (extract_tool t s w))
     (advinstCacheToolName, normalizeVersionForCache (version t), advinstCacheToolArch) =
     Some root"
  by (auto simp add: extract_tool_def andThen_simps prim_simps Let_def
      simp del: util_format.simps split: sum.splits if_splits)

section \<open>Evaluation at the concrete worlds\<close>

lemmas example_defs = example_world_def cached_world_def tool_2_def tool_21_def tool_210_def
  tool_351_def advinstCacheToolName_def advinstCacheToolArch_def advinstCustomUrlVar_def
  normalizeVersionForCache_def

lemmas run_simps = events_getPath outcome_getPath final_getPath_fields
  events_resolveRoot outcome_resolveRoot events_useRoot outcome_useRoot final_useRoot
  events_download outcome_download events_extract outcome_extract
  events_register outcome_register events_registerCom outcome_registerCom
  events_exportVariables prim_simps format_simps

section \<open>The cache key\<close>

text \<open>
  Claim C1: every cache lookup of \<^verbatim>\<open>getPath\<close> and every cache write of a run use the
  key (\<^verbatim>\<open>advinst\<close>, \<^verbatim>\<open>normalizeVersionForCache(version)\<close>, \<^verbatim>\<open>x86\<close>); and after a
  successful \<^verbatim>\<open>extract\<close> for one request, the lookup for any request whose version
  normalises to the same string returns the root that was written.
\<close>

theorem cache_key_same_normalization:
  "(\<forall>n v a. Find n v a \<in> set (events (getPath t w)) \<longrightarrow>
      n = advinstCacheToolName \<and> v = normalizeVersionForCache (version t) \<and>
      a = advinstCacheToolArch) \<and>
   (\<forall>d n v a. CacheDir d n v a \<in> set (events (getPath t w)) \<longrightarrow>
      n = advinstCacheToolName \<and> v = normalizeVersionForCache (version t) \<and>
      a = advinstCacheToolArch) \<and>
   (\<forall>t' setupPath root.
      normalizeVersionForCache (version t') = normalizeVersionForCache (version t) \<and>
      outcome (extract_tool t setupPath w) = Inr root \<longrightarrow>
      outcome (toolCache_find advinstCacheToolName (normalizeVersionForCache (version t'))
         advinstCacheToolArch (final (extract_tool t setupPath w))) = Inr root)"
proof -
  have use: "\<And>r. (\<forall>n v a. Find n v a \<notin> set (events (useRoot t r w))) \<and>
      (\<forall>d n v a. CacheDir d n v a \<notin> set (events (useRoot t r w)))"
    by (simp add: events_useRoot events_register events_registerCom events_exportVariables
        del: util_format.simps split: sum.splits)
  have res: "(\<forall>n v a. Find n v a \<in> set (events (resolveRoot t w)) \<longrightarrow>
      n = advinstCacheToolName \<and> v = normalizeVersionForCache (version t) \<and>
      a = advinstCacheToolArch) \<and>
   (\<forall>d n v a. CacheDir d n v a \<in> set (events (resolveRoot t w)) \<longrightarrow>
      n = advinstCacheToolName \<and> v = normalizeVersionForCache (version t) \<and>
      a = advinstCacheToolArch)"
    by (auto simp add: events_resolveRoot events_download events_extract
        simp del: util_format.simps split: sum.splits if_splits)
  have keys: "(\<forall>n v a. Find n v a \<in> set (events (getPath t w)) \<longrightarrow>
      n = advinstCacheToolName \<and> v = normalizeVersionForCache (version t) \<and>
      a = advinstCacheToolArch) \<and>
   (\<forall>d n v a. CacheDir d n v a \<in> set (events (getPath t w)) \<longrightarrow>
      n = advinstCacheToolName \<and> v = normalizeVersionForCache (version t) \<and>
      a = advinstCacheToolArch)"
    using use res by (auto simp add: events_getPath split: sum.splits)
  have same: "\<forall>t' setupPath root.
      normalizeVersionForCache (version t') = normalizeVersionForCache (version t) \<and>
      outcome (extract_tool t setupPath w) = Inr root \<longrightarrow>
      outcome (toolCache_find advinstCacheToolName (normalizeVersionForCache (version t'))
         advinstCacheToolArch (final (extract_tool t setupPath w))) = Inr root"
    by (auto simp add: prim_simps extract_commits)
  from keys same show ?thesis by blast
qed

text \<open>
  Claim C1, at a concrete input: a run for version \<^verbatim>\<open>2.1\<close> looks up and writes
  \<^verbatim>\<open>2.1.0\<close>, and a lookup for version \<^verbatim>\<open>2.1.0\<close> then finds the root written.
\<close>

theorem cache_key_same_normalization_witness:
  "Find ''advinst'' ''2.1.0'' ''x86'' \<in> set (events (getPath tool_21 example_world)) \<and>
   CacheDir ''D:/temp/advinst'' ''advinst'' ''2.1.0'' ''x86''
     \<in> set (events (getPath tool_21 example_world)) \<and>
   normalizeVersionForCache (version tool_21) = ''2.1.0'' \<and>
   normalizeVersionForCache (version tool_210) = normalizeVersionForCache (version tool_21) \<and>
   outcome (extract_tool tool_21 ''D:/temp/advinst.msi'' example_world) = Inr ''C:/cache/2.1.0'' \<and>
   outcome (toolCache_find advinstCacheToolName (normalizeVersionForCache (version tool_210))
      advinstCacheToolArch (final (extract_tool tool_21 ''D:/temp/advinst.msi'' example_world))) =
     Inr ''C:/cache/2.1.0''"
proof -
  have f: "Find ''advinst'' ''2.1.0'' ''x86'' \<in> set (events (getPath tool_21 example_world))"
    by (simp add: run_simps example_defs del: util_format.simps)
  have c: "CacheDir ''D:/temp/advinst'' ''advinst'' ''2.1.0'' ''x86''
     \<in> set (events (getPath tool_21 example_world))"
    by (simp add: run_simps example_defs del: util_format.simps)
  have n: "normalizeVersionForCache (version tool_210) =
      normalizeVersionForCache (version tool_21)"
    by (simp add: example_defs)
  have x: "outcome (extract_tool tool_21 ''D:/temp/advinst.msi'' example_world) =
      Inr ''C:/cache/2.1.0''"
    by (simp add: outcome_extract example_defs)
  note k = cache_key_same_normalization [of tool_21 example_world, THEN conjunct1, rule_format, OF f]
  note r = cache_key_same_normalization [of tool_21 example_world, THEN conjunct2, THEN conjunct2, rule_format,
      OF conjI [OF n x]]
  from f c n x k r show ?thesis by simp
qed

section \<open>The path of a cache hit\<close>

text \<open>
  Claim C2 as stated fails where the cached root has no executable: the lookup returns the
  non-empty root \<^verbatim>\<open>C:/cache/3.5.1\<close>, and the run ends with the existence check; neither
  \<^verbatim>\<open>register\<close> nor \<^verbatim>\<open>exportVariables\<close> is invoked.
\<close>

theorem cache_hit_missing_executable:
  "outcome (toolCache_find advinstCacheToolName (normalizeVersionForCache (version tool_351))
      advinstCacheToolArch (cached_world\<lparr>fileExists := (\<lambda>_. False)\<rparr>)) = Inr ''C:/cache/3.5.1'' \<and>
   events (getPath tool_351 (cached_world\<lparr>fileExists := (\<lambda>_. False)\<rparr>)) =
     [Info ''Checking cache for advinst tool with version: 3.5.1'',
      Find ''advinst'' ''3.5.1'' ''x86'',
      Info ''Tool found in cache'',
      Exists (''C:/cache/3.5.1'' @ backslash @ ''bin'' @ backslash @ ''x86'' @ backslash @
              ''advancedinstaller.com'')] \<and>
   Call_register (''C:/cache/3.5.1'' @ backslash @ ''bin'' @ backslash @ ''x86'' @ backslash @
              ''advancedinstaller.com'')
     \<notin> set (events (getPath tool_351 (cached_world\<lparr>fileExists := (\<lambda>_. False)\<rparr>))) \<and>
   Call_exportVariables ''C:/cache/3.5.1''
     \<notin> set (events (getPath tool_351 (cached_world\<lparr>fileExists := (\<lambda>_. False)\<rparr>)))"
  by (simp add: run_simps example_defs del: util_format.simps)

text \<open>
  Claim C2, amended: if the store lookup returns a non-empty root, \<^verbatim>\<open>getPath\<close> invokes
  neither \<^verbatim>\<open>download\<close> nor \<^verbatim>\<open>extract\<close> and checks the executable under the cached
  root. If the executable exists, \<^verbatim>\<open>register\<close> is invoked (and runs the registration
  command when a license is present); if \<^verbatim>\<open>register\<close> succeeds, \<^verbatim>\<open>registerCom\<close> is invoked;
  and if that succeeds too, \<^verbatim>\<open>exportVariables\<close> is invoked on the cached root and
  \<^verbatim>\<open>getPath\<close> returns the path of the executable.
\<close>

theorem cache_hit_path:
  assumes hit: "outcome (toolCache_find advinstCacheToolName
                  (normalizeVersionForCache (version t)) advinstCacheToolArch w) = Inr root"
    and nonempty: "root \<noteq> []"
  shows "Call_download \<notin> set (events (getPath t w)) \<and>
    (\<forall>s. Call_extract s \<notin> set (events (getPath t w))) \<and>
    downloads (events (getPath t w)) = [] \<and>
    Exists (util_format advinstComPathTemplate [root]) \<in> set (events (getPath t w)) \<and>
    (fileExists w (util_format advinstComPathTemplate [root]) \<longrightarrow>
       Call_register (util_format advinstComPathTemplate [root]) \<in> set (events (getPath t w)) \<and>
       (license t \<noteq> [] \<longrightarrow>
          GetExecOutput (util_format advinstRegisterCmdTemplate
             [util_format advinstComPathTemplate [root], license t])
            \<in> set (events (getPath t w))) \<and>
       (outcome (register t (util_format advinstComPathTemplate [root]) w) = Inr () \<longrightarrow>
          Call_registerCom (util_format advinstComPathTemplate [root])
            \<in> set (events (getPath t w)) \<and>
          (outcome (registerCom t (util_format advinstComPathTemplate [root]) w) = Inr () \<longrightarrow>
             Call_exportVariables root \<in> set (events (getPath t w)) \<and>
             outcome (getPath t w) = Inr (util_format advinstComPathTemplate [root]))))"
proof -
  have res: "outcome (resolveRoot t w) = Inr root"
    using hit nonempty by (simp add: outcome_resolveRoot)
  have ev: "events (getPath t w) =
      Info (''Checking cache for advinst tool with version: '' @ version t) #
      (if normalizeVersionForCache (version t) \<noteq> version t
       then [Info (''Normalized version '' @ version t @ '' to '' @
                normalizeVersionForCache (version t) @ '' for tool-cache compatibility'')]
       else []) @
      [Find advinstCacheToolName (normalizeVersionForCache (version t)) advinstCacheToolArch,
       Info ''Tool found in cache''] @ events (useRoot t root w)"
    using hit nonempty res by (simp add: events_getPath events_resolveRoot)
  have out: "outcome (getPath t w) = outcome (useRoot t root w)"
    using res by (simp add: outcome_getPath)
  have no_fetch: "Call_download \<notin> set (events (getPath t w)) \<and>
      (\<forall>s. Call_extract s \<notin> set (events (getPath t w)))"
    unfolding ev
    by (simp add: events_useRoot events_register events_registerCom
        events_exportVariables del: util_format.simps split: sum.splits)
  have no_dl: "downloads (events (getPath t w)) = []"
    unfolding ev by (simp add: downloads_append downloads_useRoot)
  have rest: "Exists (util_format advinstComPathTemplate [root]) \<in> set (events (getPath t w)) \<and>
    (fileExists w (util_format advinstComPathTemplate [root]) \<longrightarrow>
       Call_register (util_format advinstComPathTemplate [root]) \<in> set (events (getPath t w)) \<and>
       (license t \<noteq> [] \<longrightarrow>
          GetExecOutput (util_format advinstRegisterCmdTemplate
             [util_format advinstComPathTemplate [root], license t])
            \<in> set (events (getPath t w))) \<and>
       (outcome (register t (util_format advinstComPathTemplate [root]) w) = Inr () \<longrightarrow>
          Call_registerCom (util_format advinstComPathTemplate [root])
            \<in> set (events (getPath t w)) \<and>
          (outcome (registerCom t (util_format advinstComPathTemplate [root]) w) = Inr () \<longrightarrow>
             Call_exportVariables root \<in> set (events (getPath t w)) \<and>
             outcome (getPath t w) = Inr (util_format advinstComPathTemplate [root]))))"
    unfolding ev out
    by (simp add: events_useRoot outcome_useRoot events_register events_registerCom
        events_exportVariables format_reg del: util_format.simps)
  from no_fetch no_dl rest show ?thesis by blast
qed

text \<open>
  Claim C2, amended, at a concrete input: version \<^verbatim>\<open>3.5.1\<close> with license
  \<^verbatim>\<open>KEY\<close>, found in the cache.
\<close>

theorem cache_hit_path_witness:
  "outcome (toolCache_find advinstCacheToolName (normalizeVersionForCache (version tool_351))
      advinstCacheToolArch cached_world) = Inr ''C:/cache/3.5.1'' \<and>
   ''C:/cache/3.5.1'' \<noteq> [] \<and>
   fileExists cached_world (util_format advinstComPathTemplate [''C:/cache/3.5.1'']) \<and>
   license tool_351 \<noteq> [] \<and>
   outcome (register tool_351 (util_format advinstComPathTemplate [''C:/cache/3.5.1''])
      cached_world) = Inr () \<and>
   outcome (registerCom tool_351 (util_format advinstComPathTemplate [''C:/cache/3.5.1''])
      cached_world) = Inr () \<and>
   Call_download \<notin> set (events (getPath tool_351 cached_world)) \<and>
   downloads (events (getPath tool_351 cached_world)) = [] \<and>
   Call_register (util_format advinstComPathTemplate [''C:/cache/3.5.1''])
     \<in> set (events (getPath tool_351 cached_world)) \<and>
   GetExecOutput (util_format advinstRegisterCmdTemplate
       [util_format advinstComPathTemplate [''C:/cache/3.5.1''], license tool_351])
     \<in> set (events (getPath tool_351 cached_world)) \<and>
   Call_registerCom (util_format advinstComPathTemplate [''C:/cache/3.5.1''])
     \<in> set (events (getPath tool_351 cached_world)) \<and>
   Call_exportVariables ''C:/cache/3.5.1'' \<in> set (events (getPath tool_351 cached_world)) \<and>
   outcome (getPath tool_351 cached_world) =
     Inr (util_format advinstComPathTemplate [''C:/cache/3.5.1''])"
proof -
  have hit: "outcome (toolCache_find advinstCacheToolName
      (normalizeVersionForCache (version tool_351)) advinstCacheToolArch cached_world) =
      Inr ''C:/cache/3.5.1''"
    by (simp add: prim_simps example_defs)
  have nonempty: "''C:/cache/3.5.1'' \<noteq> []" by simp
  have ex: "fileExists cached_world (util_format advinstComPathTemplate [''C:/cache/3.5.1''])"
    by (simp add: example_defs del: util_format.simps)
  have lic: "license tool_351 \<noteq> []" by (simp add: example_defs)
  have reg: "outcome (register tool_351 (util_format advinstComPathTemplate [''C:/cache/3.5.1''])
      cached_world) = Inr ()"
    by (simp add: outcome_register example_defs del: util_format.simps)
  have com: "outcome (registerCom tool_351
      (util_format advinstComPathTemplate [''C:/cache/3.5.1'']) cached_world) = Inr ()"
    by (simp add: outcome_registerCom example_defs del: util_format.simps)
  from cache_hit_path [OF hit nonempty] ex lic reg com hit show ?thesis
    by simp
qed

section \<open>The path of a cache miss\<close>

text \<open>
  Claim C3 as stated fails where the download fails: the lookup returns absent,
  \<^verbatim>\<open>download\<close> is invoked and raises, and \<^verbatim>\<open>extract\<close> is never invoked.
\<close>

theorem cache_miss_failed_download:
  "outcome (toolCache_find advinstCacheToolName (normalizeVersionForCache (version tool_2))
      advinstCacheToolArch (example_world\<lparr>downloadTool := (\<lambda>_. Inl (Error ''404''))\<rparr>)) = Inr [] \<and>
   events (getPath tool_2 (example_world\<lparr>downloadTool := (\<lambda>_. Inl (Error ''404''))\<rparr>)) =
     [Info ''Checking cache for advinst tool with version: 2'',
      Info ''Normalized version 2 to 2.0.0 for tool-cache compatibility'',
      Find ''advinst'' ''2.0.0'' ''x86'',
      Info ''Tool not found in cache'',
      Call_download,
      GetVariable ''advancedinstaller_url'',
      Info ''Downloading advinst tool with version: 2'',
      DownloadTool ''https://www.advancedinstaller.com/downloads/2/advinst.msi''] \<and>
   steps (events (getPath tool_2 (example_world\<lparr>downloadTool := (\<lambda>_. Inl (Error ''404''))\<rparr>))) =
     [Call_download] \<and>
   outcome (getPath tool_2 (example_world\<lparr>downloadTool := (\<lambda>_. Inl (Error ''404''))\<rparr>)) =
     Inl (Error ''404'')"
  by (simp add: run_simps steps_simps example_defs del: util_format.simps)

text \<open>
  Claim C3, amended: if the store lookup returns absent, \<^verbatim>\<open>getPath\<close> invokes
  \<^verbatim>\<open>download\<close> once. If the download fails, nothing else is invoked and the error is
  the result. If it succeeds, \<^verbatim>\<open>extract\<close> is invoked once, next, on the downloaded file;
  if the extraction fails, nothing else is invoked and the error is the result. If it
  succeeds, the existence of the executable under the new root is checked next, and only
  calls of \<^verbatim>\<open>register\<close>, \<^verbatim>\<open>registerCom\<close> and \<^verbatim>\<open>exportVariables\<close> can follow the check.
\<close>

theorem cache_miss_path:
  assumes miss: "outcome (toolCache_find advinstCacheToolName
                  (normalizeVersionForCache (version t)) advinstCacheToolArch w) = Inr []"
  shows "case outcome (download t w) of
           Inl e \<Rightarrow>
             steps (events (getPath t w)) = [Call_download] \<and> outcome (getPath t w) = Inl e
         | Inr setupPath \<Rightarrow>
             (case outcome (extract_tool t setupPath w) of
                Inl e \<Rightarrow>
                  steps (events (getPath t w)) = [Call_download, Call_extract setupPath] \<and>
                  outcome (getPath t w) = Inl e
              | Inr root \<Rightarrow>
                  (\<exists>rest. steps (events (getPath t w)) =
                      [Call_download, Call_extract setupPath,
                       Exists (util_format advinstComPathTemplate [root])] @ rest \<and>
                    set rest \<subseteq> {Call_register (util_format advinstComPathTemplate [root]),
                                Call_registerCom (util_format advinstComPathTemplate [root]),
                                Call_exportVariables root}))"
proof (cases "outcome (download t w)")
  case (Inl e)
  with miss show ?thesis
    by (simp add: steps_getPath steps_resolveRoot outcome_getPath outcome_resolveRoot)
next
  case (Inr setupPath)
  then have dl: "outcome (download t w) = Inr setupPath" by simp
  show ?thesis
  proof (cases "outcome (extract_tool t setupPath w)")
    case (Inl e)
    with miss dl show ?thesis
      by (simp add: steps_getPath steps_resolveRoot outcome_getPath outcome_resolveRoot)
  next
    case (Inr root)
    with miss dl have
      "steps (events (getPath t w)) =
         [Call_download, Call_extract setupPath] @ steps (events (useRoot t root w))"
      by (simp add: steps_getPath steps_resolveRoot outcome_resolveRoot)
    then have "\<exists>rest. steps (events (getPath t w)) =
                      [Call_download, Call_extract setupPath,
                       Exists (util_format advinstComPathTemplate [root])] @ rest \<and>
                    set rest \<subseteq> {Call_register (util_format advinstComPathTemplate [root]),
                                Call_registerCom (util_format advinstComPathTemplate [root]),
                                Call_exportVariables root}"
      by (auto simp add: steps_useRoot simp del: util_format.simps split: sum.splits)
    with dl Inr show ?thesis by simp
  qed
qed

text \<open>
  Claim C3, amended, at a concrete input: version \<^verbatim>\<open>2\<close> with an empty cache.
\<close>

theorem cache_miss_path_witness:
  "outcome (toolCache_find advinstCacheToolName (normalizeVersionForCache (version tool_2))
      advinstCacheToolArch example_world) = Inr [] \<and>
   outcome (download tool_2 example_world) = Inr ''D:/temp/advinst.msi'' \<and>
   outcome (extract_tool tool_2 ''D:/temp/advinst.msi'' example_world) = Inr ''C:/cache/2.0.0'' \<and>
   (\<exists>rest. steps (events (getPath tool_2 example_world)) =
       [Call_download, Call_extract ''D:/temp/advinst.msi'',
        Exists (util_format advinstComPathTemplate [''C:/cache/2.0.0''])] @ rest \<and>
     set rest \<subseteq> {Call_register (util_format advinstComPathTemplate [''C:/cache/2.0.0'']),
                 Call_registerCom (util_format advinstComPathTemplate [''C:/cache/2.0.0'']),
                 Call_exportVariables ''C:/cache/2.0.0''})"
proof -
  have miss: "outcome (toolCache_find advinstCacheToolName
      (normalizeVersionForCache (version tool_2)) advinstCacheToolArch example_world) = Inr []"
    by (simp add: prim_simps example_defs)
  have dl: "outcome (download tool_2 example_world) = Inr ''D:/temp/advinst.msi''"
    by (simp add: outcome_download example_defs)
  have ex: "outcome (extract_tool tool_2 ''D:/temp/advinst.msi'' example_world) =
      Inr ''C:/cache/2.0.0''"
    by (simp add: outcome_extract example_defs)
  from cache_miss_path [OF miss] dl ex show ?thesis
    using miss by simp
qed

section \<open>A missing executable\<close>

text \<open>
  Claim C7: if the root was resolved, by a cache hit or by a download and an extraction,
  and the executable \<^verbatim>\<open>bin\x86\advancedinstaller.com\<close> under it does not exist, then
  \<^verbatim>\<open>getPath\<close> raises the error that names the path, neither \<^verbatim>\<open>register\<close> nor
  \<^verbatim>\<open>registerCom\<close> is invoked, and the run consists of the existence check alone (hit) or
  of one download, one extraction and the existence check (miss): nothing is retried.
\<close>

theorem missing_executable_is_fatal:
  assumes resolved:
    "(outcome (toolCache_find advinstCacheToolName (normalizeVersionForCache (version t))
         advinstCacheToolArch w) = Inr root \<and> root \<noteq> []) \<or>
     (outcome (toolCache_find advinstCacheToolName (normalizeVersionForCache (version t))
         advinstCacheToolArch w) = Inr [] \<and>
      (\<exists>setupPath. outcome (download t w) = Inr setupPath \<and>
         outcome (extract_tool t setupPath w) = Inr root))"
    and missing:
      "\<not> fileExists w (root @ backslash @ ''bin'' @ backslash @ ''x86'' @ backslash @
          ''advancedinstaller.com'')"
  shows "outcome (getPath t w) =
      Inl (Error (''Expected to find '' @ root @ backslash @ ''bin'' @ backslash @ ''x86'' @
                   backslash @ ''advancedinstaller.com'' @ '', but it was not found.'')) \<and>
    (\<forall>p. Call_register p \<notin> set (events (getPath t w))) \<and>
    (\<forall>p. Call_registerCom p \<notin> set (events (getPath t w))) \<and>
    (steps (events (getPath t w)) =
        [Exists (root @ backslash @ ''bin'' @ backslash @ ''x86'' @ backslash @
                  ''advancedinstaller.com'')] \<or>
     (\<exists>setupPath. steps (events (getPath t w)) =
        [Call_download, Call_extract setupPath,
         Exists (root @ backslash @ ''bin'' @ backslash @ ''x86'' @ backslash @
                  ''advancedinstaller.com'')]))"
proof -
  have res: "outcome (resolveRoot t w) = Inr root"
    using resolved by (auto simp add: outcome_resolveRoot)
  have missing': "\<not> fileExists w (util_format advinstComPathTemplate [root])"
    using missing by (simp add: format_com)
  have out: "outcome (getPath t w) =
      Inl (Error (''Expected to find '' @ root @ backslash @ ''bin'' @ backslash @ ''x86'' @
                   backslash @ ''advancedinstaller.com'' @ '', but it was not found.''))"
    using res missing'
    by (simp add: outcome_getPath outcome_useRoot format_expected format_com
        del: util_format.simps)
  have use: "events (useRoot t root w) = [Exists (util_format advinstComPathTemplate [root])]"
    using missing' by (simp add: events_useRoot del: util_format.simps)
  have noreg: "(\<forall>p. Call_register p \<notin> set (events (getPath t w))) \<and>
      (\<forall>p. Call_registerCom p \<notin> set (events (getPath t w)))"
    using res use
    by (simp add: events_getPath events_resolveRoot events_download events_extract
        del: util_format.simps split: sum.splits)
  have st: "steps (events (getPath t w)) =
        [Exists (root @ backslash @ ''bin'' @ backslash @ ''x86'' @ backslash @
                  ''advancedinstaller.com'')] \<or>
     (\<exists>setupPath. steps (events (getPath t w)) =
        [Call_download, Call_extract setupPath,
         Exists (root @ backslash @ ''bin'' @ backslash @ ''x86'' @ backslash @
                  ''advancedinstaller.com'')])"
    using res use resolved
    by (auto simp add: steps_getPath steps_resolveRoot steps_simps format_com
        simp del: util_format.simps)
  from out noreg st show ?thesis by blast
qed

text \<open>
  Claim C7, at two concrete inputs: a cache hit and a cache miss, both with the
  executable missing.
\<close>

theorem missing_executable_is_fatal_witness:
  "outcome (toolCache_find advinstCacheToolName (normalizeVersionForCache (version tool_351))
      advinstCacheToolArch (cached_world\<lparr>fileExists := (\<lambda>_. False)\<rparr>)) =
     Inr ''C:/cache/3.5.1'' \<and>
   outcome (getPath tool_351 (cached_world\<lparr>fileExists := (\<lambda>_. False)\<rparr>)) =
     Inl (Error (''Expected to find C:/cache/3.5.1'' @ backslash @ ''bin'' @ backslash @
        ''x86'' @ backslash @ ''advancedinstaller.com, but it was not found.'')) \<and>
   (\<forall>p. Call_register p
      \<notin> set (events (getPath tool_351 (cached_world\<lparr>fileExists := (\<lambda>_. False)\<rparr>)))) \<and>
   outcome (toolCache_find advinstCacheToolName (normalizeVersionForCache (version tool_2))
      advinstCacheToolArch (example_world\<lparr>fileExists := (\<lambda>_. False)\<rparr>)) = Inr [] \<and>
   outcome (download tool_2 (example_world\<lparr>fileExists := (\<lambda>_. False)\<rparr>)) =
     Inr ''D:/temp/advinst.msi'' \<and>
   outcome (extract_tool tool_2 ''D:/temp/advinst.msi''
      (example_world\<lparr>fileExists := (\<lambda>_. False)\<rparr>)) = Inr ''C:/cache/2.0.0'' \<and>
   outcome (getPath tool_2 (example_world\<lparr>fileExists := (\<lambda>_. False)\<rparr>)) =
     Inl (Error (''Expected to find C:/cache/2.0.0'' @ backslash @ ''bin'' @ backslash @
        ''x86'' @ backslash @ ''advancedinstaller.com, but it was not found.'')) \<and>
   (\<forall>p. Call_register p
      \<notin> set (events (getPath tool_2 (example_world\<lparr>fileExists := (\<lambda>_. False)\<rparr>))))"
proof -
  let ?w1 = "cached_world\<lparr>fileExists := (\<lambda>_. False)\<rparr>"
  let ?w2 = "example_world\<lparr>fileExists := (\<lambda>_. False)\<rparr>"
  have hit: "outcome (toolCache_find advinstCacheToolName
      (normalizeVersionForCache (version tool_351)) advinstCacheToolArch ?w1) =
      Inr ''C:/cache/3.5.1'' \<and> ''C:/cache/3.5.1'' \<noteq> []"
    by (simp add: prim_simps example_defs)
  have find2: "outcome (toolCache_find advinstCacheToolName
      (normalizeVersionForCache (version tool_2)) advinstCacheToolArch ?w2) = Inr []"
    by (simp add: prim_simps example_defs)
  have dl2: "outcome (download tool_2 ?w2) = Inr ''D:/temp/advinst.msi''"
    by (simp add: outcome_download example_defs)
  have ex2: "outcome (extract_tool tool_2 ''D:/temp/advinst.msi'' ?w2) = Inr ''C:/cache/2.0.0''"
    by (simp add: outcome_extract example_defs)
  from find2 dl2 ex2 have miss: "outcome (toolCache_find advinstCacheToolName
      (normalizeVersionForCache (version tool_2)) advinstCacheToolArch ?w2) = Inr [] \<and>
      (\<exists>setupPath. outcome (download tool_2 ?w2) = Inr setupPath \<and>
         outcome (extract_tool tool_2 setupPath ?w2) = Inr ''C:/cache/2.0.0'')"
    by blast
  have gone1: "\<not> fileExists ?w1 (''C:/cache/3.5.1'' @ backslash @ ''bin'' @ backslash @
      ''x86'' @ backslash @ ''advancedinstaller.com'')"
    by (simp add: example_defs)
  have gone2: "\<not> fileExists ?w2 (''C:/cache/2.0.0'' @ backslash @ ''bin'' @ backslash @
      ''x86'' @ backslash @ ''advancedinstaller.com'')"
    by (simp add: example_defs)
  from missing_executable_is_fatal [OF disjI1 [OF hit] gone1] missing_executable_is_fatal [OF disjI2 [OF miss] gone2] hit find2 dl2 ex2
  show ?thesis by simp
qed

section \<open>Registration\<close>

text \<open>
  Claim C8: \<^verbatim>\<open>register\<close> executes no command when the license is empty and exactly
  one command, the registration command with the tool path and that license, when it is
  not; \<^verbatim>\<open>registerCom\<close> executes no command when \<^verbatim>\<open>enableCom\<close> is false and exactly one,
  the \<^verbatim>\<open>/REGSERVER\<close> command, when it is true.
\<close>

theorem conditional_registration:
  "(license t = [] \<longrightarrow> commands (events (register t p w)) = []) \<and>
   (license t \<noteq> [] \<longrightarrow>
      commands (events (register t p w)) =
        [util_format advinstRegisterCmdTemplate [p, license t]] \<and>
      util_format advinstRegisterCmdTemplate [p, license t] = p @ '' /RegisterCI '' @ license t) \<and>
   (\<not> enableCom t \<longrightarrow> commands (events (registerCom t p w)) = []) \<and>
   (enableCom t \<longrightarrow>
      commands (events (registerCom t p w)) = [util_format advinstStartComCmdTemplate [p]] \<and>
      util_format advinstStartComCmdTemplate [p] = p @ '' /REGSERVER'')"
  by (simp add: events_register events_registerCom format_reg format_startcom
      del: util_format.simps)

text \<open>
  Claim C8, at concrete inputs: a request without license and COM, and one with both.
\<close>

theorem conditional_registration_witness:
  "license tool_2 = [] \<and> commands (events (register tool_2 ''advinst.com'' example_world)) = [] \<and>
   license tool_351 \<noteq> [] \<and>
   commands (events (register tool_351 ''advinst.com'' example_world)) =
     [''advinst.com /RegisterCI KEY''] \<and>
   \<not> enableCom tool_2 \<and>
   commands (events (registerCom tool_2 ''advinst.com'' example_world)) = [] \<and>
   enableCom tool_351 \<and>
   commands (events (registerCom tool_351 ''advinst.com'' example_world)) =
     [''advinst.com /REGSERVER'']"
proof -
  have a: "license tool_2 = [] \<and> \<not> enableCom tool_2" by (simp add: example_defs)
  have b: "license tool_351 = ''KEY'' \<and> enableCom tool_351" by (simp add: example_defs)
  from conditional_registration [of tool_2 "''advinst.com''" example_world] a
  have a': "commands (events (register tool_2 ''advinst.com'' example_world)) = [] \<and>
      commands (events (registerCom tool_2 ''advinst.com'' example_world)) = []"
    by simp
  from conditional_registration [of tool_351 "''advinst.com''" example_world] b
  have b': "commands (events (register tool_351 ''advinst.com'' example_world)) =
        [''advinst.com'' @ '' /RegisterCI '' @ ''KEY''] \<and>
      commands (events (registerCom tool_351 ''advinst.com'' example_world)) =
        [''advinst.com'' @ '' /REGSERVER'']"
    by simp
  from a b a' b' show ?thesis by simp
qed

section \<open>The source of the download\<close>

text \<open>
  Claim C9: when the custom URL variable is set to a non-empty value, \<^verbatim>\<open>download\<close>
  gives that value to \<^verbatim>\<open>downloadTool\<close> as it is, and the whole of \<^verbatim>\<open>download\<close> is the
  same for every request; otherwise the source is the URL template with the raw version
  of the request in it.
\<close>

theorem download_source:
  "(getVariable w advinstCustomUrlVar \<noteq> [] \<longrightarrow>
      downloads (events (download t w)) = [getVariable w advinstCustomUrlVar] \<and>
      outcome (download t w) = downloadTool w (getVariable w advinstCustomUrlVar) \<and>
      (\<forall>t'. download t' w = download t w)) \<and>
   (getVariable w advinstCustomUrlVar = [] \<longrightarrow>
      downloads (events (download t w)) =
        [util_format advinstDownloadUrlTemplate [version t]] \<and>
      outcome (download t w) =
        downloadTool w (util_format advinstDownloadUrlTemplate [version t]) \<and>
      util_format advinstDownloadUrlTemplate [version t] =
        ''https://www.advancedinstaller.com/downloads/'' @ version t @ ''/advinst.msi'')"
proof -
  have indep: "getVariable w advinstCustomUrlVar \<noteq> [] \<Longrightarrow> download t' w = download t w" for t'
    by (simp add: download_def andThen_def emit_def utils_getVariable_def core_info_def
        toolCache_downloadTool_def del: util_format.simps)
  have custom: "getVariable w advinstCustomUrlVar \<noteq> [] \<longrightarrow>
      downloads (events (download t w)) = [getVariable w advinstCustomUrlVar] \<and>
      outcome (download t w) = downloadTool w (getVariable w advinstCustomUrlVar)"
    by (simp add: events_download outcome_download)
  have standard: "getVariable w advinstCustomUrlVar = [] \<longrightarrow>
      downloads (events (download t w)) =
        [util_format advinstDownloadUrlTemplate [version t]] \<and>
      outcome (download t w) =
        downloadTool w (util_format advinstDownloadUrlTemplate [version t]) \<and>
      util_format advinstDownloadUrlTemplate [version t] =
        ''https://www.advancedinstaller.com/downloads/'' @ version t @ ''/advinst.msi''"
    by (simp add: events_download outcome_download format_url del: util_format.simps)
  from indep custom standard show ?thesis by blast
qed

text \<open>
  Claim C9, at concrete inputs: a world with a custom URL and one without, for
  version \<^verbatim>\<open>2\<close>.
\<close>

theorem download_source_witness:
  "getVariable (example_world\<lparr>getVariable := (\<lambda>_. ''https://mirror.example/a.msi'')\<rparr>)
      advinstCustomUrlVar \<noteq> [] \<and>
   downloads (events (download tool_2
      (example_world\<lparr>getVariable := (\<lambda>_. ''https://mirror.example/a.msi'')\<rparr>))) =
     [''https://mirror.example/a.msi''] \<and>
   download tool_351 (example_world\<lparr>getVariable := (\<lambda>_. ''https://mirror.example/a.msi'')\<rparr>) =
     download tool_2 (example_world\<lparr>getVariable := (\<lambda>_. ''https://mirror.example/a.msi'')\<rparr>) \<and>
   getVariable example_world advinstCustomUrlVar = [] \<and>
   downloads (events (download tool_2 example_world)) =
     [''https://www.advancedinstaller.com/downloads/2/advinst.msi'']"
proof -
  let ?w = "example_world\<lparr>getVariable := (\<lambda>_. ''https://mirror.example/a.msi'')\<rparr>"
  have a: "getVariable ?w advinstCustomUrlVar = ''https://mirror.example/a.msi''"
    by (simp add: example_defs)
  have b: "getVariable example_world advinstCustomUrlVar = []"
    by (simp add: example_defs)
  have v: "version tool_2 = ''2''" by (simp add: example_defs)
  from download_source [of ?w tool_2] a
  have a': "downloads (events (download tool_2 ?w)) = [''https://mirror.example/a.msi''] \<and>
      download tool_351 ?w = download tool_2 ?w"
    by simp
  from download_source [of example_world tool_2] b v
  have b': "downloads (events (download tool_2 example_world)) =
     [''https://www.advancedinstaller.com/downloads/'' @ ''2'' @ ''/advinst.msi'']"
    by simp
  from a a' b b' show ?thesis by simp
qed

section \<open>Failure and the environment\<close>

lemma resolveRoot_quiet:
  "(\<forall>r. Call_exportVariables r \<notin> set (events (resolveRoot t w))) \<and>
   (\<forall>n v. ExportVariable n v \<notin> set (events (resolveRoot t w))) \<and>
   (\<forall>d. AddPath d \<notin> set (events (resolveRoot t w)))"
  by (simp add: events_resolveRoot events_download events_extract split: sum.splits)

lemma useRoot_failure_quiet:
  "outcome (useRoot t r w) = Inl e \<Longrightarrow>
     (\<forall>r'. Call_exportVariables r' \<notin> set (events (useRoot t r w))) \<and>
     (\<forall>n v. ExportVariable n v \<notin> set (events (useRoot t r w))) \<and>
     (\<forall>d. AddPath d \<notin> set (events (useRoot t r w))) \<and>
     final (useRoot t r w) = w"
  by (auto simp add: outcome_useRoot events_useRoot final_useRoot events_register
      events_registerCom simp del: util_format.simps split: sum.splits if_splits)

lemma useRoot_failing_step:
  "\<not> fileExists w (util_format advinstComPathTemplate [r]) \<or>
   outcome (register t (util_format advinstComPathTemplate [r]) w) = Inl e1 \<or>
   outcome (registerCom t (util_format advinstComPathTemplate [r]) w) = Inl e2 \<Longrightarrow>
   \<exists>e. outcome (useRoot t r w) = Inl e"
  by (auto simp add: outcome_useRoot simp del: util_format.simps split: sum.splits)

lemma useRoot_success_steps:
  "outcome (useRoot t r w) = Inr p \<Longrightarrow>
   p = util_format advinstComPathTemplate [r] \<and>
   fileExists w (util_format advinstComPathTemplate [r]) \<and>
   outcome (register t (util_format advinstComPathTemplate [r]) w) = Inr () \<and>
   outcome (registerCom t (util_format advinstComPathTemplate [r]) w) = Inr ()"
  by (auto simp add: outcome_useRoot simp del: util_format.simps split: sum.splits if_splits)

text \<open>
  Claim C10: if the root was resolved and a later step fails (the executable does not
  exist, \<^verbatim>\<open>register\<close> raises an error or \<^verbatim>\<open>registerCom\<close> raises an error), then
  \<^verbatim>\<open>getPath\<close> ends with an error, \<^verbatim>\<open>exportVariables\<close> is never called, no variable is
  exported, no directory is added to the search path, and the exported variables and the
  search path are as they were before the run. Conversely, a run that calls
  \<^verbatim>\<open>exportVariables\<close>, exports a variable, adds a directory or changes the exported
  variables or the search path is one in which the root was resolved, the executable
  exists and both registration steps succeeded.
\<close>

theorem failure_leaves_environment:
  "(outcome (resolveRoot t w) = Inr r \<and>
    (\<not> fileExists w (util_format advinstComPathTemplate [r]) \<or>
     outcome (register t (util_format advinstComPathTemplate [r]) w) = Inl e1 \<or>
     outcome (registerCom t (util_format advinstComPathTemplate [r]) w) = Inl e2) \<longrightarrow>
    (\<exists>e. outcome (getPath t w) = Inl e) \<and>
    (\<forall>r'. Call_exportVariables r' \<notin> set (events (getPath t w))) \<and>
    (\<forall>n v. ExportVariable n v \<notin> set (events (getPath t w))) \<and>
    (\<forall>d. AddPath d \<notin> set (events (getPath t w))) \<and>
    environment (final (getPath t w)) = environment w \<and>
    searchPath (final (getPath t w)) = searchPath w) \<and>
   (Call_exportVariables r' \<in> set (events (getPath t w)) \<or>
    ExportVariable n v \<in> set (events (getPath t w)) \<or>
    AddPath d \<in> set (events (getPath t w)) \<or>
    environment (final (getPath t w)) \<noteq> environment w \<or>
    searchPath (final (getPath t w)) \<noteq> searchPath w \<longrightarrow>
    (\<exists>root. outcome (resolveRoot t w) = Inr root \<and>
       fileExists w (util_format advinstComPathTemplate [root]) \<and>
       outcome (register t (util_format advinstComPathTemplate [root]) w) = Inr () \<and>
       outcome (registerCom t (util_format advinstComPathTemplate [root]) w) = Inr () \<and>
       outcome (getPath t w) = Inr (util_format advinstComPathTemplate [root])))"
proof (rule conjI; rule impI)
  assume step: "outcome (resolveRoot t w) = Inr r \<and>
    (\<not> fileExists w (util_format advinstComPathTemplate [r]) \<or>
     outcome (register t (util_format advinstComPathTemplate [r]) w) = Inl e1 \<or>
     outcome (registerCom t (util_format advinstComPathTemplate [r]) w) = Inl e2)"
  then have res: "outcome (resolveRoot t w) = Inr r" by simp
  from step obtain e where use: "outcome (useRoot t r w) = Inl e"
    using useRoot_failing_step [of w r t e1 e2] by blast
  from res use have "outcome (getPath t w) = Inl e"
    by (simp add: outcome_getPath)
  then have err: "\<exists>e. outcome (getPath t w) = Inl e" by blast
  from useRoot_failure_quiet [OF use] resolveRoot_quiet [of t w] res
  have quiet: "(\<forall>r'. Call_exportVariables r' \<notin> set (events (getPath t w))) \<and>
    (\<forall>n v. ExportVariable n v \<notin> set (events (getPath t w))) \<and>
    (\<forall>d. AddPath d \<notin> set (events (getPath t w))) \<and>
    environment (final (getPath t w)) = environment w \<and>
    searchPath (final (getPath t w)) = searchPath w"
    by (simp add: events_getPath final_getPath_fields)
  from err quiet show "(\<exists>e. outcome (getPath t w) = Inl e) \<and>
    (\<forall>r'. Call_exportVariables r' \<notin> set (events (getPath t w))) \<and>
    (\<forall>n v. ExportVariable n v \<notin> set (events (getPath t w))) \<and>
    (\<forall>d. AddPath d \<notin> set (events (getPath t w))) \<and>
    environment (final (getPath t w)) = environment w \<and>
    searchPath (final (getPath t w)) = searchPath w"
    by blast
next
  assume mut: "Call_exportVariables r' \<in> set (events (getPath t w)) \<or>
    ExportVariable n v \<in> set (events (getPath t w)) \<or>
    AddPath d \<in> set (events (getPath t w)) \<or>
    environment (final (getPath t w)) \<noteq> environment w \<or>
    searchPath (final (getPath t w)) \<noteq> searchPath w"
  show "\<exists>root. outcome (resolveRoot t w) = Inr root \<and>
       fileExists w (util_format advinstComPathTemplate [root]) \<and>
       outcome (register t (util_format advinstComPathTemplate [root]) w) = Inr () \<and>
       outcome (registerCom t (util_format advinstComPathTemplate [root]) w) = Inr () \<and>
       outcome (getPath t w) = Inr (util_format advinstComPathTemplate [root])"
  proof (cases "outcome (resolveRoot t w)")
    case (Inl e)
    with mut resolveRoot_quiet [of t w] show ?thesis
      by (simp add: events_getPath final_getPath_fields)
  next
    case res: (Inr root)
    show ?thesis
    proof (cases "outcome (useRoot t root w)")
      case (Inl e)
      from useRoot_failure_quiet [OF Inl] resolveRoot_quiet [of t w] res mut show ?thesis
        by (simp add: events_getPath final_getPath_fields)
    next
      case (Inr p)
      from useRoot_success_steps [OF Inr] res Inr show ?thesis
        by (simp add: outcome_getPath del: util_format.simps)
    qed
  qed
qed

text \<open>
  Claim C10, at concrete inputs, all cache hits: the executable is missing; the
  registration command exits with code 1; the registration is skipped and the COM command
  exits with code 1; and a run in which every step succeeds, which exports.
\<close>

theorem failure_leaves_environment_witness:
  "outcome (resolveRoot tool_351 (cached_world\<lparr>fileExists := (\<lambda>_. False)\<rparr>)) =
     Inr ''C:/cache/3.5.1'' \<and>
   \<not> fileExists (cached_world\<lparr>fileExists := (\<lambda>_. False)\<rparr>)
       (util_format advinstComPathTemplate [''C:/cache/3.5.1'']) \<and>
   (\<exists>e. outcome (getPath tool_351 (cached_world\<lparr>fileExists := (\<lambda>_. False)\<rparr>)) = Inl e) \<and>
   (\<forall>r'. Call_exportVariables r'
      \<notin> set (events (getPath tool_351 (cached_world\<lparr>fileExists := (\<lambda>_. False)\<rparr>)))) \<and>
   outcome (resolveRoot tool_351
      (cached_world\<lparr>getExecOutput := (\<lambda>_. Inr (1, ''bad key''))\<rparr>)) = Inr ''C:/cache/3.5.1'' \<and>
   outcome (register tool_351 (util_format advinstComPathTemplate [''C:/cache/3.5.1''])
      (cached_world\<lparr>getExecOutput := (\<lambda>_. Inr (1, ''bad key''))\<rparr>)) = Inl (Error ''bad key'') \<and>
   (\<exists>e. outcome (getPath tool_351
      (cached_world\<lparr>getExecOutput := (\<lambda>_. Inr (1, ''bad key''))\<rparr>)) = Inl e) \<and>
   (\<forall>r'. Call_exportVariables r' \<notin> set (events (getPath tool_351
      (cached_world\<lparr>getExecOutput := (\<lambda>_. Inr (1, ''bad key''))\<rparr>)))) \<and>
   (\<forall>n v. ExportVariable n v \<notin> set (events (getPath tool_351
      (cached_world\<lparr>getExecOutput := (\<lambda>_. Inr (1, ''bad key''))\<rparr>)))) \<and>
   (\<forall>d. AddPath d \<notin> set (events (getPath tool_351
      (cached_world\<lparr>getExecOutput := (\<lambda>_. Inr (1, ''bad key''))\<rparr>)))) \<and>
   outcome (resolveRoot (tool_351\<lparr>license := []\<rparr>)
      (cached_world\<lparr>getExecOutput := (\<lambda>_. Inr (1, ''no COM''))\<rparr>)) = Inr ''C:/cache/3.5.1'' \<and>
   outcome (registerCom (tool_351\<lparr>license := []\<rparr>)
      (util_format advinstComPathTemplate [''C:/cache/3.5.1''])
      (cached_world\<lparr>getExecOutput := (\<lambda>_. Inr (1, ''no COM''))\<rparr>)) = Inl (Error ''no COM'') \<and>
   (\<exists>e. outcome (getPath (tool_351\<lparr>license := []\<rparr>)
      (cached_world\<lparr>getExecOutput := (\<lambda>_. Inr (1, ''no COM''))\<rparr>)) = Inl e) \<and>
   (\<forall>r'. Call_exportVariables r' \<notin> set (events (getPath (tool_351\<lparr>license := []\<rparr>)
      (cached_world\<lparr>getExecOutput := (\<lambda>_. Inr (1, ''no COM''))\<rparr>)))) \<and>
   Call_exportVariables ''C:/cache/3.5.1'' \<in> set (events (getPath tool_351 cached_world)) \<and>
   (\<exists>root. outcome (resolveRoot tool_351 cached_world) = Inr root \<and>
      fileExists cached_world (util_format advinstComPathTemplate [root]) \<and>
      outcome (register tool_351 (util_format advinstComPathTemplate [root]) cached_world) =
        Inr () \<and>
      outcome (registerCom tool_351 (util_format advinstComPathTemplate [root]) cached_world) =
        Inr () \<and>
      outcome (getPath tool_351 cached_world) = Inr (util_format advinstComPathTemplate [root]))"
proof -
  let ?w1 = "cached_world\<lparr>fileExists := (\<lambda>_. False)\<rparr>"
  let ?w2 = "cached_world\<lparr>getExecOutput := (\<lambda>_. Inr (1, ''bad key''))\<rparr>"
  let ?w3 = "cached_world\<lparr>getExecOutput := (\<lambda>_. Inr (1, ''no COM''))\<rparr>"
  let ?t3 = "tool_351\<lparr>license := []\<rparr>"
  let ?p = "util_format advinstComPathTemplate [''C:/cache/3.5.1'']"
  have r1: "outcome (resolveRoot tool_351 ?w1) = Inr ''C:/cache/3.5.1''"
    by (simp add: outcome_resolveRoot prim_simps example_defs)
  have x1: "\<not> fileExists ?w1 ?p"
    by (simp add: example_defs del: util_format.simps)
  have r2: "outcome (resolveRoot tool_351 ?w2) = Inr ''C:/cache/3.5.1''"
    by (simp add: outcome_resolveRoot prim_simps example_defs)
  have x2: "outcome (register tool_351 ?p ?w2) = Inl (Error ''bad key'')"
    by (simp add: outcome_register example_defs del: util_format.simps)
  have r3: "outcome (resolveRoot ?t3 ?w3) = Inr ''C:/cache/3.5.1''"
    by (simp add: outcome_resolveRoot prim_simps example_defs)
  have x3: "outcome (registerCom ?t3 ?p ?w3) = Inl (Error ''no COM'')"
    by (simp add: outcome_registerCom example_defs del: util_format.simps)
  have x4: "Call_exportVariables ''C:/cache/3.5.1'' \<in> set (events (getPath tool_351 cached_world))"
    by (simp add: run_simps example_defs del: util_format.simps)
  note c1 = failure_leaves_environment [of tool_351 ?w1, THEN conjunct1, rule_format,
      OF conjI [OF r1 disjI1 [OF x1]]]
  note c2 = failure_leaves_environment [of tool_351 ?w2, THEN conjunct1, rule_format,
      OF conjI [OF r2 disjI2 [OF disjI1 [OF x2]]]]
  note c3 = failure_leaves_environment [of ?t3 ?w3, THEN conjunct1, rule_format,
      OF conjI [OF r3 disjI2 [OF disjI2 [OF x3]]]]
  note c4 = failure_leaves_environment [of tool_351 cached_world, THEN conjunct2, rule_format,
      OF disjI1 [OF x4]]
  from r1 x1 c1 r2 x2 c2 r3 x3 c3 x4 c4 show ?thesis
    by (simp del: util_format.simps)
qed

end
